theory Spec2Isabelle
  imports Main
begin

section \<open>The EME controller of hls.js (src/controller/eme-controller.js)\<close>

text \<open>
  The controller negotiates access to a key-system, creates media-keys and key-sessions for
  it and sets the media-keys on the media element once the element reports encrypted
  content. Its callbacks are modelled as functions on the controller's fields that return
  how the call ended, the host calls and error reports it made, and the updated fields.
\<close>

subsection \<open>Host objects, errors and effects\<close>

text \<open>
  Objects handed out by the browser are opaque handles. A codec identifier is a string, as
  the source's JSDoc declares (\<open>Array<string>\<close>).
\<close>

datatype MediaKeySystemAccess = MediaKeySystemAccess nat
datatype MediaKeys = MediaKeys nat
datatype MediaKeySession = MediaKeySession nat
datatype HTMLMediaElement = HTMLMediaElement nat

text \<open>
  \<open>Error msg\<close> is the value of \<open>Error(msg)\<close>; \<open>TypeError\<close> is what reading a property of
  \<open>null\<close> throws; \<open>HostError\<close> is an exception or a rejection reason of the host.
\<close>

datatype error = Error string | TypeError | HostError nat

datatype outcome = Returned | Threw error

text \<open>
  A capability object \<open>{ contentType: ... }\<close>, and a configuration object as the list of its
  properties: the source's literal has the single property \<open>videoCapabilities\<close>.
\<close>

record capability =
  contentType :: string

type_synonym MediaKeySystemConfiguration = "(string \<times> capability list) list"

text \<open>
  The calls the controller makes on host objects, and its \<open>console.warn\<close> and
  \<open>console.error\<close> reports (the message, and the error printed after it). The informative
  \<open>console.log\<close> lines, and the \<open>getConfiguration()\<close> read that feeds one of them, are left out.
\<close>

datatype effect =
    RequestMediaKeySystemAccess string "MediaKeySystemConfiguration list"
  | CreateMediaKeys MediaKeySystemAccess
  | CreateSession MediaKeys
  | SetMediaKeys HTMLMediaElement "MediaKeys option"
  | AddEncryptedListener HTMLMediaElement
  | ConsoleWarn string
  | ConsoleError string "error option"

subsection \<open>Key-system configurations\<close>

definition WIDEVINE :: string where
  "WIDEVINE = ''com.widevine.alpha''"

text \<open>
  \<open>createWidevineMediaKeySystemConfigurations\<close>: \<open>forEach\<close> over the video codecs pushes one
  capability each onto \<open>baseConfig.videoCapabilities\<close>, which starts empty; the audio codecs
  and the options are not read.
\<close>

definition videoContentType :: "string \<Rightarrow> string" where
  "videoContentType codec = ''video/mp4; codecs=\"'' @ codec @ ''\"''"

definition createWidevineMediaKeySystemConfigurations ::
  "string list \<Rightarrow> string list \<Rightarrow> 'o option \<Rightarrow> MediaKeySystemConfiguration list" where
  "createWidevineMediaKeySystemConfigurations audioCodecs videoCodecs drmOptions =
     [[(''videoCapabilities'',
        foldl (\<lambda>caps codec. caps @ [\<lparr>contentType = videoContentType codec\<rparr>]) [] videoCodecs)]]"

text \<open>
  \<open>getSupportedMediaKeySystemConfigurations\<close>: the \<open>switch\<close> on the key-system. The result is
  documented as an array or \<open>null\<close> (\<open>None\<close> here); the default case throws.
\<close>

definition getSupportedMediaKeySystemConfigurations ::
  "string \<Rightarrow> string list \<Rightarrow> string list \<Rightarrow> error + MediaKeySystemConfiguration list option" where
  "getSupportedMediaKeySystemConfigurations keySystem audioCodecs videoCodecs =
     (if keySystem = WIDEVINE
      then Inr (Some (createWidevineMediaKeySystemConfigurations audioCodecs videoCodecs
                        (None :: unit option)))
      else Inl (Error (''Unknown key-system: '' @ keySystem)))"

subsection \<open>The controller\<close>

record MediaKeysListItem =
  mediaKeys :: "MediaKeys option"
  mediaKeysSession :: "MediaKeySession option"
  mediaKeySystemAccess :: MediaKeySystemAccess

record EMEController =
  mediaKeysList :: "MediaKeysListItem list"
  media :: "HTMLMediaElement option"
  hasSetMediaKeys :: bool
  isMediaEncrypted :: bool

type_synonym result = "outcome \<times> effect list \<times> EMEController"

text \<open>The constructor's field values.\<close>

definition EMEController_new :: EMEController where
  "EMEController_new =
     \<lparr>mediaKeysList = [], media = None, hasSetMediaKeys = False, isMediaEncrypted = False\<rparr>"

text \<open>
  \<open>_attemptKeySystemAccess\<close>: an exception of the configuration builder is not caught here;
  a \<open>null\<close> result is warned about; any array, the empty one too, is truthy and goes to
  \<open>requestMediaKeySystemAccess\<close>, whose promise is settled later by the host.
\<close>

definition attemptKeySystemAccess ::
  "string \<Rightarrow> string list \<Rightarrow> string list \<Rightarrow> EMEController \<Rightarrow> result" where
  "attemptKeySystemAccess keySystem audioCodecs videoCodecs this =
     (case getSupportedMediaKeySystemConfigurations keySystem audioCodecs videoCodecs of
        Inl e \<Rightarrow> (Threw e, [], this)
      | Inr None \<Rightarrow>
          (Returned,
           [ConsoleWarn (''Can not create config for key-system '' @
                         ''(maybe because platform is not supported):'')],
           this)
      | Inr (Some mediaKeySystemConfigs) \<Rightarrow>
          (Returned, [RequestMediaKeySystemAccess keySystem mediaKeySystemConfigs], this))"

text \<open>
  \<open>_onMediaKeySystemAccessObtained\<close>: pushes a new item and asks the access object for
  media-keys. The key-system is only logged.
\<close>

definition onMediaKeySystemAccessObtained ::
  "string \<Rightarrow> MediaKeySystemAccess \<Rightarrow> EMEController \<Rightarrow> result" where
  "onMediaKeySystemAccessObtained keySystem access this =
     (Returned, [CreateMediaKeys access],
      this\<lparr>mediaKeysList := mediaKeysList this @
              [\<lparr>mediaKeys = None, mediaKeysSession = None, mediaKeySystemAccess = access\<rparr>]\<rparr>)"

text \<open>
  \<open>_onMediaKeysCreated\<close>: the \<open>forEach\<close> over the items. An item without a session calls
  \<open>createSession()\<close> on its \<open>mediaKeys\<close> field: on \<open>null\<close> that is a \<open>TypeError\<close>, and the host
  may throw too; either ends the loop, the items before keeping their new sessions. The
  host's answer to \<open>createSession()\<close> is the parameter \<open>createSession\<close>.
\<close>

fun onMediaKeysCreated_forEach ::
  "(MediaKeys \<Rightarrow> error + MediaKeySession) \<Rightarrow> MediaKeysListItem list
     \<Rightarrow> outcome \<times> effect list \<times> MediaKeysListItem list" where
  "onMediaKeysCreated_forEach createSession [] = (Returned, [], [])"
| "onMediaKeysCreated_forEach createSession (item # rest) =
     (if mediaKeysSession item = None then
        (case mediaKeys item of
           None \<Rightarrow> (Threw TypeError, [], item # rest)
         | Some keys \<Rightarrow>
             (case createSession keys of
                Inl e \<Rightarrow> (Threw e, [CreateSession keys], item # rest)
              | Inr session \<Rightarrow>
                  (case onMediaKeysCreated_forEach createSession rest of
                     (out, effs, rest') \<Rightarrow>
                       (out, CreateSession keys # effs,
                        item\<lparr>mediaKeysSession := Some session\<rparr> # rest'))))
      else
        (case onMediaKeysCreated_forEach createSession rest of
           (out, effs, rest') \<Rightarrow> (out, effs, item # rest')))"

definition onMediaKeysCreated ::
  "(MediaKeys \<Rightarrow> error + MediaKeySession) \<Rightarrow> EMEController \<Rightarrow> result" where
  "onMediaKeysCreated createSession this =
     (case onMediaKeysCreated_forEach createSession (mediaKeysList this) of
        (out, effs, items) \<Rightarrow> (out, effs, this\<lparr>mediaKeysList := items\<rparr>))"

text \<open>
  \<open>_attemptSetMediaKeys\<close>: \<open>this._mediaKeysList[0]\<close> is \<open>undefined\<close> on the empty list, and an
  item otherwise; \<open>this._media.setMediaKeys\<close> on a \<open>null\<close> media is a \<open>TypeError\<close>, thrown
  before the flag is written.
\<close>

definition fatalNoAccess :: string where
  "fatalNoAccess =
     ''Fatal error: Media is encrypted but no key-system access has been obtained yet''"

definition attemptSetMediaKeys :: "EMEController \<Rightarrow> result" where
  "attemptSetMediaKeys this =
     (if \<not> hasSetMediaKeys this then
        (case mediaKeysList this of
           [] \<Rightarrow> (Returned, [ConsoleError fatalNoAccess None], this)
         | keysListItem # _ \<Rightarrow>
             (case media this of
                None \<Rightarrow> (Threw TypeError, [], this)
              | Some m \<Rightarrow>
                  (Returned, [SetMediaKeys m (mediaKeys keysListItem)],
                   this\<lparr>hasSetMediaKeys := True\<rparr>)))
      else (Returned, [], this))"

definition onMediaEncrypted :: "EMEController \<Rightarrow> result" where
  "onMediaEncrypted this = attemptSetMediaKeys (this\<lparr>isMediaEncrypted := True\<rparr>)"

subsection \<open>Event handlers and promise callbacks\<close>

record Level =
  audioCodec :: string
  videoCodec :: string

definition onMediaAttaching :: "EMEController \<Rightarrow> result" where
  "onMediaAttaching this = (Returned, [], this)"

definition onMediaAttached :: "HTMLMediaElement \<Rightarrow> EMEController \<Rightarrow> result" where
  "onMediaAttached m this = (Returned, [AddEncryptedListener m], this\<lparr>media := Some m\<rparr>)"

definition onManifestParsed :: "Level list \<Rightarrow> EMEController \<Rightarrow> result" where
  "onManifestParsed levels this =
     (let audioCodecs = map audioCodec levels;
          videoCodecs = map videoCodec levels
      in attemptKeySystemAccess WIDEVINE audioCodecs videoCodecs this)"

definition onLevelSwitched :: "EMEController \<Rightarrow> result" where
  "onLevelSwitched this = (Returned, [], this)"

text \<open>
  The callbacks given to the two promises. The \<open>then\<close> callback of \<open>createMediaKeys()\<close>
  holds the item it was created for, here the item's index (items are only ever pushed, so
  the index is fixed); an exception inside a \<open>then\<close> callback rejects the chained promise and
  reaches the \<open>catch\<close> callback, which reports it.
\<close>

definition requestAccess_then :: "string \<Rightarrow> MediaKeySystemAccess \<Rightarrow> EMEController \<Rightarrow> result" where
  "requestAccess_then keySystem access this =
     (case onMediaKeySystemAccessObtained keySystem access this of
        (Threw e, effs, this') \<Rightarrow>
          (Returned,
           effs @ [ConsoleError (''Failed to obtain key-system '' @ keySystem @ '' access:'')
                     (Some e)],
           this')
      | r \<Rightarrow> r)"

definition requestAccess_catch :: "string \<Rightarrow> error \<Rightarrow> EMEController \<Rightarrow> result" where
  "requestAccess_catch keySystem err this =
     (Returned,
      [ConsoleError (''Failed to obtain key-system '' @ keySystem @ '' access:'') (Some err)],
      this)"

definition createMediaKeys_catch :: "error \<Rightarrow> EMEController \<Rightarrow> result" where
  "createMediaKeys_catch err this =
     (Returned, [ConsoleError ''Failed to create media-keys:'' (Some err)], this)"

definition createMediaKeys_then ::
  "(MediaKeys \<Rightarrow> error + MediaKeySession) \<Rightarrow> nat \<Rightarrow> MediaKeys \<Rightarrow> EMEController \<Rightarrow> result" where
  "createMediaKeys_then createSession i keys this =
     (if i < length (mediaKeysList this) then
        (case onMediaKeysCreated createSession
                (this\<lparr>mediaKeysList :=
                   (mediaKeysList this)[i := (mediaKeysList this ! i)\<lparr>mediaKeys := Some keys\<rparr>]\<rparr>) of
           (Threw e, effs, this') \<Rightarrow>
             (Returned, effs @ [ConsoleError ''Failed to create media-keys:'' (Some e)], this')
         | r \<Rightarrow> r)
      else (Returned, [], this))"

text \<open>
  What reaches the controller: the four subscribed events, the media element's
  \<open>encrypted\<close> event, and the settlements of the two kinds of promise.
\<close>

datatype event =
    MediaAttaching
  | MediaAttached HTMLMediaElement
  | ManifestParsed "Level list"
  | LevelSwitched
  | Encrypted
  | AccessResolved string MediaKeySystemAccess
  | AccessRejected string error
  | MediaKeysResolved nat MediaKeys
  | MediaKeysRejected nat error

fun dispatch ::
  "(MediaKeys \<Rightarrow> error + MediaKeySession) \<Rightarrow> event \<Rightarrow> EMEController \<Rightarrow> result" where
  "dispatch cs MediaAttaching this = onMediaAttaching this"
| "dispatch cs (MediaAttached m) this = onMediaAttached m this"
| "dispatch cs (ManifestParsed levels) this = onManifestParsed levels this"
| "dispatch cs LevelSwitched this = onLevelSwitched this"
| "dispatch cs Encrypted this = onMediaEncrypted this"
| "dispatch cs (AccessResolved keySystem access) this = requestAccess_then keySystem access this"
| "dispatch cs (AccessRejected keySystem err) this = requestAccess_catch keySystem err this"
| "dispatch cs (MediaKeysResolved i keys) this = createMediaKeys_then cs i keys this"
| "dispatch cs (MediaKeysRejected i err) this = createMediaKeys_catch err this"

text \<open>
  A run delivers the events in turn; an exception that leaves a handler ends that handler
  only, and the controller keeps the fields written so far. The result is every effect of
  the run, in order, and the final fields.
\<close>

fun run ::
  "(MediaKeys \<Rightarrow> error + MediaKeySession) \<Rightarrow> event list \<Rightarrow> EMEController
     \<Rightarrow> effect list \<times> EMEController" where
  "run cs [] this = ([], this)"
| "run cs (ev # evs) this =
     (case dispatch cs ev this of
        (out, effs, this') \<Rightarrow>
          (case run cs evs this' of (effs', this'') \<Rightarrow> (effs @ effs', this'')))"

fun isSetMediaKeys :: "effect \<Rightarrow> bool" where
  "isSetMediaKeys (SetMediaKeys m k) = True"
| "isSetMediaKeys _ = False"

fun isAccessResolved :: "event \<Rightarrow> bool" where
  "isAccessResolved (AccessResolved keySystem access) = True"
| "isAccessResolved _ = False"

subsection \<open>Sample inputs\<close>

text \<open>
  A host whose \<open>createSession()\<close> always succeeds, one quality level, and the controller
  with two items of which only the second has media-keys.
\<close>

definition hostCreateSession :: "MediaKeys \<Rightarrow> error + MediaKeySession" where
  "hostCreateSession keys = (case keys of MediaKeys n \<Rightarrow> Inr (MediaKeySession n))"

definition level720 :: Level where
  "level720 = \<lparr>audioCodec = ''mp4a.40.2'', videoCodec = ''avc1.4d401f''\<rparr>"

definition twoItems :: EMEController where
  "twoItems =
    \<lparr>mediaKeysList =
       [\<lparr>mediaKeys = None, mediaKeysSession = None,
         mediaKeySystemAccess = MediaKeySystemAccess 0\<rparr>,
        \<lparr>mediaKeys = Some (MediaKeys 1), mediaKeysSession = None,
         mediaKeySystemAccess = MediaKeySystemAccess 1\<rparr>],
     media = None, hasSetMediaKeys = False, isMediaEncrypted = False\<rparr>"

definition attached :: EMEController where
  "attached =
    \<lparr>mediaKeysList =
       [\<lparr>mediaKeys = Some (MediaKeys 0), mediaKeysSession = Some (MediaKeySession 0),
         mediaKeySystemAccess = MediaKeySystemAccess 0\<rparr>],
     media = Some (HTMLMediaElement 0), hasSetMediaKeys = True, isMediaEncrypted = True\<rparr>"

lemmas eme_defs =
  onMediaAttaching_def onMediaAttached_def onManifestParsed_def onLevelSwitched_def
  onMediaEncrypted_def attemptSetMediaKeys_def attemptKeySystemAccess_def
  getSupportedMediaKeySystemConfigurations_def createWidevineMediaKeySystemConfigurations_def
  requestAccess_then_def requestAccess_catch_def createMediaKeys_catch_def
  createMediaKeys_then_def onMediaKeySystemAccessObtained_def onMediaKeysCreated_def
  EMEController_new_def hostCreateSession_def level720_def videoContentType_def

section \<open>Properties\<close>

subsection \<open>Key-system configurations\<close>

lemma widevine_videoCapabilities_foldl:
  "foldl (\<lambda>caps codec. caps @ [\<lparr>contentType = videoContentType codec\<rparr>]) acc videoCodecs =
     acc @ map (\<lambda>codec. \<lparr>contentType = videoContentType codec\<rparr>) videoCodecs"
  by (induction videoCodecs arbitrary: acc) simp_all

lemma widevine_configurations:
  "createWidevineMediaKeySystemConfigurations audioCodecs videoCodecs drmOptions =
     [[(''videoCapabilities'',
        map (\<lambda>codec. \<lparr>contentType = videoContentType codec\<rparr>) videoCodecs)]]"
  by (simp add: createWidevineMediaKeySystemConfigurations_def widevine_videoCapabilities_foldl)

text \<open>
  C3, as amended. For the supported key-system and every list of requested video codecs,
  the builder returns a sequence of exactly one configuration, whose video capabilities are
  one per element of the requested list, in request order and with repeated codecs
  repeated, each of content type \<open>video/mp4; codecs="<codec>"\<close>; the configuration has no
  audio capabilities. For \<open>["avc1.4d401f"]\<close> the single configuration has the single video
  capability \<open>video/mp4; codecs="avc1.4d401f"\<close>.
\<close>

theorem widevine_one_capability_per_requested_codec:
  "getSupportedMediaKeySystemConfigurations WIDEVINE audioCodecs videoCodecs =
     Inr (Some (createWidevineMediaKeySystemConfigurations audioCodecs videoCodecs
                  (None :: unit option)))
   \<and> map (\<lambda>config. map_of config ''videoCapabilities'')
        (createWidevineMediaKeySystemConfigurations audioCodecs videoCodecs drmOptions) =
      [Some (map (\<lambda>codec. \<lparr>contentType = ''video/mp4; codecs=\"'' @ codec @ ''\"''\<rparr>)
               videoCodecs)]
   \<and> map (\<lambda>config. map_of config ''audioCapabilities'')
        (createWidevineMediaKeySystemConfigurations audioCodecs videoCodecs drmOptions) = [None]
   \<and> createWidevineMediaKeySystemConfigurations audioCodecs [''avc1.4d401f''] drmOptions =
        [[(''videoCapabilities'', [\<lparr>contentType = ''video/mp4; codecs=\"avc1.4d401f\"''\<rparr>])]]"
  by (simp add: getSupportedMediaKeySystemConfigurations_def widevine_configurations
      videoContentType_def)

text \<open>
  C3, as stated, asks for one capability per distinct requested codec. Two quality levels
  with the same video codec request it twice, and the configuration then has two equal
  capabilities for the one distinct codec.
\<close>

theorem widevine_repeated_codec_counterexample:
  "createWidevineMediaKeySystemConfigurations [] [''avc1.4d401f'', ''avc1.4d401f'']
     (None :: unit option) =
     [[(''videoCapabilities'',
        [\<lparr>contentType = ''video/mp4; codecs=\"avc1.4d401f\"''\<rparr>,
         \<lparr>contentType = ''video/mp4; codecs=\"avc1.4d401f\"''\<rparr>])]]
   \<and> remdups [''avc1.4d401f'', ''avc1.4d401f''] = [''avc1.4d401f'']"
  by (simp add: createWidevineMediaKeySystemConfigurations_def videoContentType_def)

text \<open>
  C10. The configurations do not depend on the requested audio codecs: for any two audio
  codec lists and the same video codec list the Widevine builder, the builder for any
  key-system, and the request that \<open>_attemptKeySystemAccess\<close> makes are the same.
\<close>

theorem configurations_independent_of_audioCodecs:
  "createWidevineMediaKeySystemConfigurations audioCodecs1 videoCodecs drmOptions =
     createWidevineMediaKeySystemConfigurations audioCodecs2 videoCodecs drmOptions
   \<and> getSupportedMediaKeySystemConfigurations keySystem audioCodecs1 videoCodecs =
       getSupportedMediaKeySystemConfigurations keySystem audioCodecs2 videoCodecs
   \<and> attemptKeySystemAccess keySystem audioCodecs1 videoCodecs this =
       attemptKeySystemAccess keySystem audioCodecs2 videoCodecs this"
  by (simp add: createWidevineMediaKeySystemConfigurations_def
      getSupportedMediaKeySystemConfigurations_def attemptKeySystemAccess_def)

subsection \<open>Requesting access\<close>

text \<open>
  C8. For a key-system other than the registered one the builder fails with the error
  \<open>Unknown key-system: <id>\<close>, and so does \<open>_attemptKeySystemAccess\<close>, making no host call
  and leaving every field of the controller, the list of items among them, as it was.
\<close>

theorem unknown_keySystem_fails_list_unchanged:
  assumes "keySystem \<noteq> WIDEVINE"
  shows "getSupportedMediaKeySystemConfigurations keySystem audioCodecs videoCodecs =
           Inl (Error (''Unknown key-system: '' @ keySystem))
       \<and> attemptKeySystemAccess keySystem audioCodecs videoCodecs this =
           (Threw (Error (''Unknown key-system: '' @ keySystem)), [], this)"
  using assms
  by (simp add: getSupportedMediaKeySystemConfigurations_def attemptKeySystemAccess_def)

text \<open>C8 at the key-system \<open>com.microsoft.playready\<close> and the new controller.\<close>

theorem unknown_keySystem_fails_list_unchanged_witness:
  "''com.microsoft.playready'' \<noteq> WIDEVINE
   \<and> attemptKeySystemAccess ''com.microsoft.playready'' [''mp4a.40.2''] [''avc1.4d401f'']
        EMEController_new =
      (Threw (Error ''Unknown key-system: com.microsoft.playready''), [], EMEController_new)"
proof -
  have ne: "''com.microsoft.playready'' \<noteq> WIDEVINE"
    by (simp add: WIDEVINE_def)
  from unknown_keySystem_fails_list_unchanged
         [OF ne, of "[''mp4a.40.2'']" "[''avc1.4d401f'']" EMEController_new] ne
  show ?thesis by simp
qed

text \<open>
  C5, as amended. When building the configurations fails, \<open>_attemptKeySystemAccess\<close>
  creates no item and makes no host call, and the builder's error is thrown on to its
  caller; it is not caught or logged there. The builder never yields \<open>null\<close> or an empty
  sequence.
\<close>

theorem attemptKeySystemAccess_builder_error_propagates:
  "(getSupportedMediaKeySystemConfigurations keySystem audioCodecs videoCodecs = Inl e \<longrightarrow>
      attemptKeySystemAccess keySystem audioCodecs videoCodecs this = (Threw e, [], this))
   \<and> getSupportedMediaKeySystemConfigurations keySystem audioCodecs videoCodecs \<noteq> Inr None
   \<and> getSupportedMediaKeySystemConfigurations keySystem audioCodecs videoCodecs \<noteq> Inr (Some [])"
  by (simp add: attemptKeySystemAccess_def getSupportedMediaKeySystemConfigurations_def
      createWidevineMediaKeySystemConfigurations_def)

text \<open>C5 as amended, at the key-system \<open>org.w3.clearkey\<close>, where the builder fails.\<close>

theorem attemptKeySystemAccess_builder_error_propagates_witness:
  "getSupportedMediaKeySystemConfigurations ''org.w3.clearkey'' [] [''avc1.4d401f''] =
     Inl (Error ''Unknown key-system: org.w3.clearkey'')
   \<and> attemptKeySystemAccess ''org.w3.clearkey'' [] [''avc1.4d401f''] twoItems =
     (Threw (Error ''Unknown key-system: org.w3.clearkey''), [], twoItems)"
proof -
  have failed:
    "getSupportedMediaKeySystemConfigurations ''org.w3.clearkey'' [] [''avc1.4d401f''] =
       Inl (Error ''Unknown key-system: org.w3.clearkey'')"
    by (simp add: getSupportedMediaKeySystemConfigurations_def WIDEVINE_def)
  from attemptKeySystemAccess_builder_error_propagates
         [of "''org.w3.clearkey''" "[]" "[''avc1.4d401f'']"
             "Error ''Unknown key-system: org.w3.clearkey''" twoItems] failed
  show ?thesis by simp
qed

text \<open>
  C5, as stated, has \<open>_attemptKeySystemAccess\<close> return normally when building fails. For
  the key-system \<open>com.apple.fps\<close> the call ends with the builder's exception instead.
\<close>

theorem attemptKeySystemAccess_throws_counterexample:
  "attemptKeySystemAccess ''com.apple.fps'' [''mp4a.40.2''] [''avc1.4d401f''] EMEController_new =
     (Threw (Error ''Unknown key-system: com.apple.fps''), [], EMEController_new)"
  by (simp add: attemptKeySystemAccess_def getSupportedMediaKeySystemConfigurations_def
      WIDEVINE_def)

text \<open>
  C7. When access is obtained, the list of items is the list before with one item pushed
  at its end, holding the access object and neither media-keys nor a session, and
  \<open>createMediaKeys()\<close> is called on that access object; the same holds of the \<open>then\<close> callback
  of the access request.
\<close>

theorem onMediaKeySystemAccessObtained_pushes_one_item:
  "onMediaKeySystemAccessObtained keySystem access this =
     (Returned, [CreateMediaKeys access],
      this\<lparr>mediaKeysList := mediaKeysList this @
        [\<lparr>mediaKeys = None, mediaKeysSession = None, mediaKeySystemAccess = access\<rparr>]\<rparr>)
   \<and> dispatch cs (AccessResolved keySystem access) this =
     (Returned, [CreateMediaKeys access],
      this\<lparr>mediaKeysList := mediaKeysList this @
        [\<lparr>mediaKeys = None, mediaKeysSession = None, mediaKeySystemAccess = access\<rparr>]\<rparr>)"
  by (simp add: onMediaKeySystemAccessObtained_def requestAccess_then_def)

subsection \<open>Creating sessions\<close>

text \<open>
  What the loop of \<open>_onMediaKeysCreated\<close> does when every item that lacks a session has
  media-keys for which the host creates one: it returns, every item then has a session, and
  no other field of an item changes.
\<close>

lemma forEach_complete:
  assumes "\<forall>item\<in>set items. mediaKeysSession item = None \<longrightarrow>
             (\<exists>keys session. mediaKeys item = Some keys \<and> cs keys = Inr session)"
  shows "\<exists>effs items'. onMediaKeysCreated_forEach cs items = (Returned, effs, items')
           \<and> (\<forall>item\<in>set items'. mediaKeysSession item \<noteq> None)
           \<and> map mediaKeys items' = map mediaKeys items
           \<and> map mediaKeySystemAccess items' = map mediaKeySystemAccess items"
  using assms
proof (induction items)
  case Nil
  show ?case by simp
next
  case (Cons item rest)
  then obtain effs rest' where
    r: "onMediaKeysCreated_forEach cs rest = (Returned, effs, rest')"
       "\<forall>item\<in>set rest'. mediaKeysSession item \<noteq> None"
       "map mediaKeys rest' = map mediaKeys rest"
       "map mediaKeySystemAccess rest' = map mediaKeySystemAccess rest"
    by auto
  show ?case
  proof (cases "mediaKeysSession item")
    case (Some s)
    with r show ?thesis by simp
  next
    case None
    with Cons.prems obtain keys session where
      "mediaKeys item = Some keys" "cs keys = Inr session" by auto
    with None r show ?thesis by simp
  qed
qed

text \<open>
  Running the loop again on its own result ends the same way and leaves the items as they
  are; after a run that returned, the second run makes no host call.
\<close>

lemma forEach_again:
  "onMediaKeysCreated_forEach cs items = (out, effs, items') \<Longrightarrow>
     fst (onMediaKeysCreated_forEach cs items') = out
     \<and> snd (snd (onMediaKeysCreated_forEach cs items')) = items'"
proof (induction items arbitrary: out effs items')
  case Nil
  then show ?case by auto
next
  case (Cons item rest)
  obtain out1 effs1 rest1 where r: "onMediaKeysCreated_forEach cs rest = (out1, effs1, rest1)"
    by (cases "onMediaKeysCreated_forEach cs rest") auto
  from Cons.IH [OF r]
  have ih: "fst (onMediaKeysCreated_forEach cs rest1) = out1"
           "snd (snd (onMediaKeysCreated_forEach cs rest1)) = rest1"
    by simp_all
  obtain out2 effs2 rest2 where r2: "onMediaKeysCreated_forEach cs rest1 = (out2, effs2, rest2)"
    by (cases "onMediaKeysCreated_forEach cs rest1") auto
  with ih have e: "out2 = out1" "rest2 = rest1" by simp_all
  from Cons.prems r r2 e show ?case
    by (auto split: if_splits option.splits sum.splits)
qed

lemma forEach_again_no_effects:
  "onMediaKeysCreated_forEach cs items = (Returned, effs, items') \<Longrightarrow>
     onMediaKeysCreated_forEach cs items' = (Returned, [], items')"
proof (induction items arbitrary: effs items')
  case Nil
  then show ?case by auto
next
  case (Cons item rest)
  obtain out1 effs1 rest1 where r: "onMediaKeysCreated_forEach cs rest = (out1, effs1, rest1)"
    by (cases "onMediaKeysCreated_forEach cs rest") auto
  with Cons.prems have "out1 = Returned"
    by (auto split: if_splits option.splits sum.splits)
  with r Cons.IH have "onMediaKeysCreated_forEach cs rest1 = (Returned, [], rest1)" by simp
  with Cons.prems r show ?case
    by (auto split: if_splits option.splits sum.splits)
qed

text \<open>
  C6 fails on the code. Two manifests are parsed and access is obtained for both, so the
  list has two items; the media-keys of the second item arrive first. Its \<open>then\<close> callback
  stores them and runs \<open>_onMediaKeysCreated\<close>, which reaches the first item, without
  session and without media-keys, calls \<open>createSession()\<close> on \<open>null\<close> and throws. The second
  item, which has media-keys and no session, gets no session, and the \<open>catch\<close> callback
  reports the \<open>TypeError\<close> as a failure to create media-keys.
\<close>

theorem onMediaKeysCreated_throws_on_item_without_mediaKeys:
  "run hostCreateSession
     [ManifestParsed [level720], ManifestParsed [level720],
      AccessResolved WIDEVINE (MediaKeySystemAccess 0),
      AccessResolved WIDEVINE (MediaKeySystemAccess 1),
      MediaKeysResolved 1 (MediaKeys 1)]
     EMEController_new =
   ([RequestMediaKeySystemAccess WIDEVINE
       [[(''videoCapabilities'', [\<lparr>contentType = ''video/mp4; codecs=\"avc1.4d401f\"''\<rparr>])]],
     RequestMediaKeySystemAccess WIDEVINE
       [[(''videoCapabilities'', [\<lparr>contentType = ''video/mp4; codecs=\"avc1.4d401f\"''\<rparr>])]],
     CreateMediaKeys (MediaKeySystemAccess 0),
     CreateMediaKeys (MediaKeySystemAccess 1),
     ConsoleError ''Failed to create media-keys:'' (Some TypeError)],
    twoItems)"
  by (simp add: eme_defs twoItems_def)

text \<open>
  C9 fails on the code, from the same missing check. On the list of two items reached
  above, \<open>_onMediaKeysCreated\<close> throws a \<open>TypeError\<close> and changes nothing, and so does a second
  run right after it: the second run raises an error.
\<close>

theorem onMediaKeysCreated_second_run_throws:
  "onMediaKeysCreated hostCreateSession twoItems = (Threw TypeError, [], twoItems)
   \<and> onMediaKeysCreated hostCreateSession
        (snd (snd (onMediaKeysCreated hostCreateSession twoItems))) =
      (Threw TypeError, [], twoItems)"
  by (simp add: onMediaKeysCreated_def twoItems_def)

subsection \<open>What each callback leaves alone\<close>

lemma forEach_length:
  "onMediaKeysCreated_forEach cs items = (out, effs, items') \<Longrightarrow> length items' = length items"
  by (induction items arbitrary: out effs items')
     (auto split: if_splits option.splits sum.splits prod.splits)

lemma forEach_no_SetMediaKeys:
  "onMediaKeysCreated_forEach cs items = (out, effs, items') \<Longrightarrow> filter isSetMediaKeys effs = []"
  by (induction items arbitrary: out effs items')
     (auto split: if_splits option.splits sum.splits prod.splits)

lemma onMediaKeysCreated_frame:
  assumes "onMediaKeysCreated cs this = (out, effs, this')"
  shows "hasSetMediaKeys this' = hasSetMediaKeys this
       \<and> length (mediaKeysList this') = length (mediaKeysList this)
       \<and> filter isSetMediaKeys effs = []"
  using assms forEach_length [of cs "mediaKeysList this"] 
        forEach_no_SetMediaKeys [of cs "mediaKeysList this"]
  by (auto simp: onMediaKeysCreated_def split: prod.splits)

lemma createMediaKeys_then_frame:
  assumes "createMediaKeys_then cs i keys this = (out, effs, this')"
  shows "hasSetMediaKeys this' = hasSetMediaKeys this
       \<and> length (mediaKeysList this') = length (mediaKeysList this)
       \<and> filter isSetMediaKeys effs = []"
proof (cases "i < length (mediaKeysList this)")
  case False
  with assms show ?thesis by (simp add: createMediaKeys_then_def)
next
  case True
  define that where
    "that = this\<lparr>mediaKeysList :=
              (mediaKeysList this)[i := (mediaKeysList this ! i)\<lparr>mediaKeys := Some keys\<rparr>]\<rparr>"
  obtain out1 effs1 this1 where r: "onMediaKeysCreated cs that = (out1, effs1, this1)"
    by (cases "onMediaKeysCreated cs that") auto
  from onMediaKeysCreated_frame [OF r]
  have f: "hasSetMediaKeys this1 = hasSetMediaKeys this"
       "length (mediaKeysList this1) = length (mediaKeysList this)"
       "filter isSetMediaKeys effs1 = []"
    by (simp_all add: that_def)
  from assms True r have "this' = this1 \<and> (effs = effs1 \<or> (\<exists>e. effs = effs1 @ [ConsoleError ''Failed to create media-keys:'' (Some e)]))"
    by (cases out1) (auto simp: createMediaKeys_then_def that_def)
  with f show ?thesis by auto
qed

lemma attemptSetMediaKeys_frame:
  assumes "attemptSetMediaKeys this = (out, effs, this')"
  shows "mediaKeysList this' = mediaKeysList this"
    and "hasSetMediaKeys this \<Longrightarrow> hasSetMediaKeys this' \<and> filter isSetMediaKeys effs = []"
    and "length (filter isSetMediaKeys effs) \<le> 1"
    and "filter isSetMediaKeys effs \<noteq> [] \<Longrightarrow> hasSetMediaKeys this'"
  using assms
  by (auto simp: attemptSetMediaKeys_def split: if_splits list.splits option.splits)

lemma attemptKeySystemAccess_frame:
  assumes "attemptKeySystemAccess keySystem audioCodecs videoCodecs this = (out, effs, this')"
  shows "this' = this \<and> filter isSetMediaKeys effs = []"
  using assms
  by (auto simp: attemptKeySystemAccess_def split: sum.splits option.splits)

lemma dispatch_frame:
  assumes "dispatch cs ev this = (out, effs, this')"
  shows "length (mediaKeysList this') =
           length (mediaKeysList this) + (if isAccessResolved ev then 1 else 0)"
    and "hasSetMediaKeys this \<Longrightarrow> hasSetMediaKeys this' \<and> filter isSetMediaKeys effs = []"
    and "length (filter isSetMediaKeys effs) \<le> 1"
    and "filter isSetMediaKeys effs \<noteq> [] \<Longrightarrow> hasSetMediaKeys this'"
proof -
  have "length (mediaKeysList this') =
           length (mediaKeysList this) + (if isAccessResolved ev then 1 else 0)
      \<and> (hasSetMediaKeys this \<longrightarrow> hasSetMediaKeys this' \<and> filter isSetMediaKeys effs = [])
      \<and> length (filter isSetMediaKeys effs) \<le> 1
      \<and> (filter isSetMediaKeys effs \<noteq> [] \<longrightarrow> hasSetMediaKeys this')"
  proof (cases ev)
    case MediaAttaching
    with assms show ?thesis by (auto simp: onMediaAttaching_def)
  next
    case (MediaAttached m)
    with assms show ?thesis by (auto simp: onMediaAttached_def)
  next
    case (ManifestParsed levels)
    with assms attemptKeySystemAccess_frame show ?thesis
      by (fastforce simp: onManifestParsed_def)
  next
    case LevelSwitched
    with assms show ?thesis by (auto simp: onLevelSwitched_def)
  next
    case Encrypted
    with assms have a: "attemptSetMediaKeys (this\<lparr>isMediaEncrypted := True\<rparr>) = (out, effs, this')"
      by (simp add: onMediaEncrypted_def)
    from attemptSetMediaKeys_frame [OF a] Encrypted show ?thesis by simp
  next
    case (AccessResolved keySystem access)
    with assms show ?thesis
      by (auto simp: requestAccess_then_def onMediaKeySystemAccessObtained_def)
  next
    case (AccessRejected keySystem err)
    with assms show ?thesis by (auto simp: requestAccess_catch_def)
  next
    case (MediaKeysResolved i keys)
    with assms have "createMediaKeys_then cs i keys this = (out, effs, this')" by simp
    from createMediaKeys_then_frame [OF this] MediaKeysResolved show ?thesis by simp
  next
    case (MediaKeysRejected i err)
    with assms show ?thesis by (auto simp: createMediaKeys_catch_def)
  qed
  then show "length (mediaKeysList this') =
           length (mediaKeysList this) + (if isAccessResolved ev then 1 else 0)"
    and "hasSetMediaKeys this \<Longrightarrow> hasSetMediaKeys this' \<and> filter isSetMediaKeys effs = []"
    and "length (filter isSetMediaKeys effs) \<le> 1"
    and "filter isSetMediaKeys effs \<noteq> [] \<Longrightarrow> hasSetMediaKeys this'"
    by simp_all
qed

subsection \<open>The list of items over a run\<close>

text \<open>
  C4, as amended. Over any run of events, one item is pushed for each access obtained and
  none otherwise: the list grows by the number of successful access requests, whatever
  their key-system, and a parsed manifest pushes nothing by itself.
\<close>

theorem mediaKeysList_one_item_per_access_obtained:
  "length (mediaKeysList (snd (run cs evs this))) =
     length (mediaKeysList this) + length (filter isAccessResolved evs)"
proof (induction evs arbitrary: this)
  case Nil
  show ?case by simp
next
  case (Cons ev evs)
  obtain out effs this' where d: "dispatch cs ev this = (out, effs, this')"
    by (cases "dispatch cs ev this") auto
  obtain effs' this'' where r: "run cs evs this' = (effs', this'')"
    by (cases "run cs evs this'") auto
  from dispatch_frame(1) [OF d] Cons.IH [of this'] d r
  show ?case by simp
qed

text \<open>
  C4, as stated, allows one item per key-system. Two manifests are parsed, each requests
  access for Widevine, and both requests succeed: the list then holds two items for the one
  key-system.
\<close>

theorem mediaKeysList_two_widevine_items_counterexample:
  "run hostCreateSession
     [ManifestParsed [level720], ManifestParsed [level720],
      AccessResolved WIDEVINE (MediaKeySystemAccess 0),
      AccessResolved WIDEVINE (MediaKeySystemAccess 1)]
     EMEController_new =
   ([RequestMediaKeySystemAccess WIDEVINE
       [[(''videoCapabilities'', [\<lparr>contentType = ''video/mp4; codecs=\"avc1.4d401f\"''\<rparr>])]],
     RequestMediaKeySystemAccess WIDEVINE
       [[(''videoCapabilities'', [\<lparr>contentType = ''video/mp4; codecs=\"avc1.4d401f\"''\<rparr>])]],
     CreateMediaKeys (MediaKeySystemAccess 0),
     CreateMediaKeys (MediaKeySystemAccess 1)],
    \<lparr>mediaKeysList =
       [\<lparr>mediaKeys = None, mediaKeysSession = None,
         mediaKeySystemAccess = MediaKeySystemAccess 0\<rparr>,
        \<lparr>mediaKeys = None, mediaKeysSession = None,
         mediaKeySystemAccess = MediaKeySystemAccess 1\<rparr>],
     media = None, hasSetMediaKeys = False, isMediaEncrypted = False\<rparr>)"
  by (simp add: eme_defs)

subsection \<open>Setting the media-keys\<close>

text \<open>
  C2. Over any run of events from any state of the controller, \<open>setMediaKeys\<close> is called at
  most once, and not at all when \<open>_hasSetMediaKeys\<close> is already true; once true the flag
  stays true, whatever events follow.
\<close>

theorem setMediaKeys_at_most_once:
  "length (filter isSetMediaKeys (fst (run cs evs this))) \<le> (if hasSetMediaKeys this then 0 else 1)
   \<and> (hasSetMediaKeys this \<longrightarrow> hasSetMediaKeys (snd (run cs evs this)))"
proof (induction evs arbitrary: this)
  case Nil
  show ?case by simp
next
  case (Cons ev evs)
  obtain out effs this' where d: "dispatch cs ev this = (out, effs, this')"
    by (cases "dispatch cs ev this") auto
  obtain effs' this'' where r: "run cs evs this' = (effs', this'')"
    by (cases "run cs evs this'") auto
  from Cons.IH [of this'] r
  have ih: "length (filter isSetMediaKeys effs') \<le> (if hasSetMediaKeys this' then 0 else 1)"
           "hasSetMediaKeys this' \<longrightarrow> hasSetMediaKeys this''"
    by simp_all
  have eq: "run cs (ev # evs) this = (effs @ effs', this'')"
    using d r by simp
  show ?case
  proof (cases "hasSetMediaKeys this")
    case True
    with dispatch_frame(2) [OF d] ih eq show ?thesis by simp
  next
    case False
    show ?thesis
    proof (cases "filter isSetMediaKeys effs = []")
      case True
      with ih eq False show ?thesis by (simp split: if_splits)
    next
      case nonempty: False
      with dispatch_frame(4) [OF d] have "hasSetMediaKeys this'" by simp
      with ih dispatch_frame(3) [OF d] eq False show ?thesis by simp
    qed
  qed
qed

text \<open>
  C2 on a run in which the media-keys arrive and the media element reports encrypted
  content twice, from the new controller and from one that has set its media-keys.
\<close>

theorem setMediaKeys_at_most_once_witness:
  "\<not> hasSetMediaKeys EMEController_new
   \<and> length (filter isSetMediaKeys (fst (run hostCreateSession
        [MediaAttached (HTMLMediaElement 0), ManifestParsed [level720],
         AccessResolved WIDEVINE (MediaKeySystemAccess 0), MediaKeysResolved 0 (MediaKeys 0),
         Encrypted, Encrypted] EMEController_new))) \<le> 1
   \<and> hasSetMediaKeys attached
   \<and> hasSetMediaKeys (snd (run hostCreateSession
        [AccessResolved WIDEVINE (MediaKeySystemAccess 1), MediaKeysResolved 1 (MediaKeys 1),
         Encrypted] attached))
   \<and> length (filter isSetMediaKeys (fst (run hostCreateSession
        [AccessResolved WIDEVINE (MediaKeySystemAccess 1), MediaKeysResolved 1 (MediaKeys 1),
         Encrypted] attached))) \<le> 0"
proof -
  have fresh: "\<not> hasSetMediaKeys EMEController_new"
    by (simp add: EMEController_new_def)
  have already: "hasSetMediaKeys attached"
    by (simp add: attached_def)
  from setMediaKeys_at_most_once
         [of hostCreateSession
             "[MediaAttached (HTMLMediaElement 0), ManifestParsed [level720],
               AccessResolved WIDEVINE (MediaKeySystemAccess 0),
               MediaKeysResolved 0 (MediaKeys 0), Encrypted, Encrypted]"
             EMEController_new]
       setMediaKeys_at_most_once
         [of hostCreateSession
             "[AccessResolved WIDEVINE (MediaKeySystemAccess 1),
               MediaKeysResolved 1 (MediaKeys 1), Encrypted]"
             attached]
       fresh already
  show ?thesis by simp
qed

text \<open>
  C1, as amended. When the media element reports encrypted content while
  \<open>_hasSetMediaKeys\<close> is false: if the list of items is empty, the fatal error is reported,
  \<open>setMediaKeys\<close> is not called and the flag stays false; if the first item of the list has
  media-keys, they are set on the media element and the flag becomes true.
\<close>

theorem onMediaEncrypted_first_item:
  assumes "\<not> hasSetMediaKeys this" and "media this = Some m"
  shows "(mediaKeysList this = [] \<longrightarrow>
            onMediaEncrypted this =
              (Returned, [ConsoleError fatalNoAccess None], this\<lparr>isMediaEncrypted := True\<rparr>))
       \<and> (mediaKeysList this = item # rest \<and> mediaKeys item = Some keys \<longrightarrow>
            onMediaEncrypted this =
              (Returned, [SetMediaKeys m (Some keys)],
               this\<lparr>isMediaEncrypted := True, hasSetMediaKeys := True\<rparr>))"
  using assms by (simp add: onMediaEncrypted_def attemptSetMediaKeys_def)

text \<open>
  C1 as amended, on a controller with a media element and no item, and on one whose only
  item has media-keys.
\<close>

theorem onMediaEncrypted_first_item_witness:
  "onMediaEncrypted (EMEController_new\<lparr>media := Some (HTMLMediaElement 0)\<rparr>) =
     (Returned, [ConsoleError fatalNoAccess None],
      EMEController_new\<lparr>media := Some (HTMLMediaElement 0), isMediaEncrypted := True\<rparr>)
   \<and> onMediaEncrypted (attached\<lparr>hasSetMediaKeys := False\<rparr>) =
     (Returned, [SetMediaKeys (HTMLMediaElement 0) (Some (MediaKeys 0))],
      attached\<lparr>isMediaEncrypted := True, hasSetMediaKeys := True\<rparr>)"
proof -
  let ?empty = "EMEController_new\<lparr>media := Some (HTMLMediaElement 0)\<rparr>"
  let ?ready = "attached\<lparr>hasSetMediaKeys := False\<rparr>"
  let ?item = "\<lparr>mediaKeys = Some (MediaKeys 0), mediaKeysSession = Some (MediaKeySession 0),
                mediaKeySystemAccess = MediaKeySystemAccess 0\<rparr>"
  have e: "\<not> hasSetMediaKeys ?empty" "media ?empty = Some (HTMLMediaElement 0)"
          "mediaKeysList ?empty = []"
    by (simp_all add: EMEController_new_def)
  have r: "\<not> hasSetMediaKeys ?ready" "media ?ready = Some (HTMLMediaElement 0)"
          "mediaKeysList ?ready = ?item # []" "mediaKeys ?item = Some (MediaKeys 0)"
    by (simp_all add: attached_def)
  from onMediaEncrypted_first_item [OF e(1) e(2)] e(3)
  have first: "onMediaEncrypted ?empty =
     (Returned, [ConsoleError fatalNoAccess None], ?empty\<lparr>isMediaEncrypted := True\<rparr>)"
    by simp
  from onMediaEncrypted_first_item [OF r(1) r(2), of ?item "[]" "MediaKeys 0"] r(3) r(4)
  have second: "onMediaEncrypted ?ready =
     (Returned, [SetMediaKeys (HTMLMediaElement 0) (Some (MediaKeys 0))],
      ?ready\<lparr>isMediaEncrypted := True, hasSetMediaKeys := True\<rparr>)"
    by simp
  from first second show ?thesis by simp
qed

text \<open>
  C1, as stated, has the controller pick the first item that has media-keys, and do nothing
  but report when there is none. Here the media element reports encrypted content after
  access was obtained and before the media-keys exist: the only item has no media-keys, yet
  \<open>setMediaKeys\<close> is called, with \<open>null\<close>, and the flag becomes true. And on the list of two
  items of which only the second has media-keys, it is the first item's \<open>null\<close> that is set,
  not the second item's media-keys.
\<close>

theorem onMediaEncrypted_item_without_mediaKeys_counterexample:
  "run hostCreateSession
     [MediaAttached (HTMLMediaElement 0), ManifestParsed [level720],
      AccessResolved WIDEVINE (MediaKeySystemAccess 0), Encrypted]
     EMEController_new =
   ([AddEncryptedListener (HTMLMediaElement 0),
     RequestMediaKeySystemAccess WIDEVINE
       [[(''videoCapabilities'', [\<lparr>contentType = ''video/mp4; codecs=\"avc1.4d401f\"''\<rparr>])]],
     CreateMediaKeys (MediaKeySystemAccess 0),
     SetMediaKeys (HTMLMediaElement 0) None],
    \<lparr>mediaKeysList =
       [\<lparr>mediaKeys = None, mediaKeysSession = None,
         mediaKeySystemAccess = MediaKeySystemAccess 0\<rparr>],
     media = Some (HTMLMediaElement 0), hasSetMediaKeys = True, isMediaEncrypted = True\<rparr>)
   \<and> onMediaEncrypted (twoItems\<lparr>media := Some (HTMLMediaElement 0)\<rparr>) =
     (Returned, [SetMediaKeys (HTMLMediaElement 0) None],
      twoItems\<lparr>media := Some (HTMLMediaElement 0), isMediaEncrypted := True,
        hasSetMediaKeys := True\<rparr>)"
  by (simp add: eme_defs twoItems_def)

end
